theory Spec2Isabelle
  imports Main "HOL-Library.AList" "HOL-Library.Sublist"
begin

section \<open>Documents\<close>

text \<open>
  The handlers of \<^verbatim>\<open>main.py\<close> work on Python dictionaries that come from and go to a
  document database. A dictionary is an association list (Python keeps the insertion
  order of the keys; \<open>AList.update\<close> overwrites in place or appends, as an assignment
  \<^verbatim>\<open>d[k] = v\<close> does, and \<open>AList.delete\<close> is \<^verbatim>\<open>d.pop(k)\<close>). The values are the JSON
  values plus the identifiers the database assigns (\<open>JOid\<close>). Floating point numbers
  are left out of the model.
\<close>

datatype jvalue =
    JNull
  | JBool bool
  | JInt int
  | JStr string
  | JOid nat
  | JList "jvalue list"
  | JDict "(string \<times> jvalue) list"

type_synonym doc = "(string \<times> jvalue) list"

text \<open>
  The loop body that every read handler runs on each document it returns:
  \<^verbatim>\<open>
  if "_id" in d:
      d["id"] = str(d.pop("_id"))
  \<close>
  Python's \<^verbatim>\<open>str\<close> is a parameter of the model (\<open>str_of\<close>): nothing below depends on
  how a value is printed.
\<close>

definition normalize_id :: "(jvalue \<Rightarrow> string) \<Rightarrow> doc \<Rightarrow> doc" where
  "normalize_id str_of d =
     (case map_of d ''_id'' of
        None \<Rightarrow> d
      | Some v \<Rightarrow> AList.update ''id'' (JStr (str_of v)) (AList.delete ''_id'' d))"


section \<open>Schemas\<close>

text \<open>
  \<^verbatim>\<open>schemas.py\<close> declares one pydantic model per collection. A model is a list of
  fields in declaration order; each field has a type, and either no default
  (\<^verbatim>\<open>Field(...)\<close> or a bare annotation) or a default value (\<^verbatim>\<open>default_factory=list\<close> is
  the default \<open>JList []\<close>). \<open>TInt ge le\<close> carries the bounds \<^verbatim>\<open>ge=\<close> and \<^verbatim>\<open>le=\<close>.
\<close>

datatype ftype =
    TStr
  | TInt "int option" "int option"
  | TBool
  | THttpUrl
  | TLiteral "string list"
  | TOptional ftype
  | TList ftype
  | TDict

datatype fdefault = Required | Default jvalue

type_synonym field = "string \<times> ftype \<times> fdefault"
type_synonym schema = "field list"

definition Category :: schema where
  "Category =
     [(''name'', TStr, Required),
      (''slug'', TStr, Required)]"

definition Vendor :: schema where
  "Vendor =
     [(''store_name'', TStr, Required),
      (''slug'', TStr, Required),
      (''logo_url'', TOptional THttpUrl, Default JNull),
      (''about'', TOptional TStr, Default JNull),
      (''verified'', TBool, Default (JBool False)),
      (''membership_status'', TLiteral [''active'', ''expired''], Default (JStr ''active'')),
      (''membership_renewal_date'', TOptional TStr, Default JNull),
      (''region'', TOptional TStr, Default JNull)]"

definition Product :: schema where
  "Product =
     [(''title'', TStr, Required),
      (''slug'', TStr, Required),
      (''description'', TOptional TStr, Default JNull),
      (''vendor_slug'', TStr, Required),
      (''price_in_paise'', TInt (Some 0) None, Required),
      (''saree_type'', TStr, Required),
      (''color'', TOptional TStr, Default JNull),
      (''material'', TOptional TStr, Default JNull),
      (''occasion'', TOptional TStr, Default JNull),
      (''care'', TOptional TStr, Default JNull),
      (''images'', TList THttpUrl, Default (JList [])),
      (''stock'', TInt (Some 0) None, Default (JInt 10))]"

definition Review :: schema where
  "Review =
     [(''product_slug'', TStr, Required),
      (''rating'', TInt (Some 1) (Some 5), Required),
      (''comment'', TOptional TStr, Default JNull),
      (''author_name'', TOptional TStr, Default JNull)]"

definition Order :: schema where
  "Order =
     [(''buyer_name'', TStr, Required),
      (''buyer_email'', TStr, Required),
      (''vendor_slug'', TStr, Required),
      (''items'', TList TDict, Required),
      (''total_in_paise'', TInt (Some 0) None, Required),
      (''status'', TLiteral [''pending'', ''paid'', ''dispatched'', ''delivered'', ''refunded''],
         Default (JStr ''pending''))]"

section \<open>Validation\<close>

text \<open>
  Validation is what pydantic does with such a model and a payload (a dictionary): every
  field is looked up; an absent field takes its default, or is reported as missing when
  it has none; a present field is converted to the field's type and checked against its
  bounds. All the errors are collected, each with the path of the offending value, and
  the validation fails when there is one. Fields the model does not declare are dropped.

  The conversions of a string to an integer, a boolean or a URL are the library's; they
  are parameters of the model (\<open>lax\<close>), so that every theorem holds whatever texts the
  library accepts.
\<close>

datatype pelem = Key string | Idx nat

datatype vkind =
    Missing
  | StringType
  | IntType
  | IntParsing
  | BoolType
  | BoolParsing
  | UrlType
  | UrlParsing
  | GreaterThanEqual int
  | LessThanEqual int
  | LiteralError
  | ListType
  | DictType

type_synonym verr = "pelem list \<times> vkind"

record lax =
  int_of_str :: "string \<Rightarrow> int option"
  bool_of_str :: "string \<Rightarrow> bool option"
  url_of_str :: "string \<Rightarrow> string option"

fun collect :: "(verr list + 'a) list \<Rightarrow> verr list + 'a list" where
  "collect [] = Inr []"
| "collect (r # rs) =
     (case r of
        Inl e \<Rightarrow> (case collect rs of Inl es \<Rightarrow> Inl (e @ es) | Inr _ \<Rightarrow> Inl e)
      | Inr x \<Rightarrow> (case collect rs of Inl es \<Rightarrow> Inl es | Inr xs \<Rightarrow> Inr (x # xs)))"

definition at_loc :: "pelem \<Rightarrow> verr list + 'a \<Rightarrow> verr list + 'a" where
  "at_loc l r = (case r of Inl es \<Rightarrow> Inl (map (\<lambda>(loc, k). (l # loc, k)) es) | Inr x \<Rightarrow> Inr x)"

definition to_int :: "lax \<Rightarrow> jvalue \<Rightarrow> verr list + int" where
  "to_int L v =
     (case v of
        JInt i \<Rightarrow> Inr i
      | JBool b \<Rightarrow> Inr (if b then 1 else 0)
      | JStr s \<Rightarrow> (case int_of_str L s of None \<Rightarrow> Inl [([], IntParsing)] | Some i \<Rightarrow> Inr i)
      | _ \<Rightarrow> Inl [([], IntType)])"

definition check_bounds :: "int option \<Rightarrow> int option \<Rightarrow> int \<Rightarrow> verr list + jvalue" where
  "check_bounds ge le i =
     (case ge of
        Some lo \<Rightarrow>
          if i < lo then Inl [([], GreaterThanEqual lo)]
          else (case le of
                  Some hi \<Rightarrow> if hi < i then Inl [([], LessThanEqual hi)] else Inr (JInt i)
                | None \<Rightarrow> Inr (JInt i))
      | None \<Rightarrow>
          (case le of
             Some hi \<Rightarrow> if hi < i then Inl [([], LessThanEqual hi)] else Inr (JInt i)
           | None \<Rightarrow> Inr (JInt i)))"

definition to_bool :: "lax \<Rightarrow> jvalue \<Rightarrow> verr list + jvalue" where
  "to_bool L v =
     (case v of
        JBool b \<Rightarrow> Inr (JBool b)
      | JInt i \<Rightarrow>
          if i = 0 then Inr (JBool False)
          else if i = 1 then Inr (JBool True)
          else Inl [([], BoolParsing)]
      | JStr s \<Rightarrow>
          (case bool_of_str L s of None \<Rightarrow> Inl [([], BoolParsing)] | Some b \<Rightarrow> Inr (JBool b))
      | _ \<Rightarrow> Inl [([], BoolType)])"

definition to_url :: "lax \<Rightarrow> jvalue \<Rightarrow> verr list + jvalue" where
  "to_url L v =
     (case v of
        JStr s \<Rightarrow> (case url_of_str L s of None \<Rightarrow> Inl [([], UrlParsing)] | Some u \<Rightarrow> Inr (JStr u))
      | _ \<Rightarrow> Inl [([], UrlType)])"

fun coerce :: "lax \<Rightarrow> ftype \<Rightarrow> jvalue \<Rightarrow> verr list + jvalue" where
  "coerce L TStr v = (case v of JStr s \<Rightarrow> Inr (JStr s) | _ \<Rightarrow> Inl [([], StringType)])"
| "coerce L (TInt ge le) v =
     (case to_int L v of Inl es \<Rightarrow> Inl es | Inr i \<Rightarrow> check_bounds ge le i)"
| "coerce L TBool v = to_bool L v"
| "coerce L THttpUrl v = to_url L v"
| "coerce L (TLiteral allowed) v =
     (case v of
        JStr s \<Rightarrow> if s \<in> set allowed then Inr (JStr s) else Inl [([], LiteralError)]
      | _ \<Rightarrow> Inl [([], LiteralError)])"
| "coerce L (TOptional t) v = (if v = JNull then Inr JNull else coerce L t v)"
| "coerce L (TList t) v =
     (case v of
        JList xs \<Rightarrow>
          (case collect (map (\<lambda>(i, x). at_loc (Idx i) (coerce L t x)) (enumerate 0 xs)) of
             Inl es \<Rightarrow> Inl es
           | Inr ys \<Rightarrow> Inr (JList ys))
      | _ \<Rightarrow> Inl [([], ListType)])"
| "coerce L TDict v = (case v of JDict d \<Rightarrow> Inr (JDict d) | _ \<Rightarrow> Inl [([], DictType)])"

definition validate_field :: "lax \<Rightarrow> doc \<Rightarrow> field \<Rightarrow> verr list + (string \<times> jvalue)" where
  "validate_field L payload f =
     (case f of (name, t, dflt) \<Rightarrow>
        (case map_of payload name of
           None \<Rightarrow>
             (case dflt of
                Required \<Rightarrow> Inl [([Key name], Missing)]
              | Default v \<Rightarrow> Inr (name, v))
         | Some v \<Rightarrow>
             (case at_loc (Key name) (coerce L t v) of
                Inl es \<Rightarrow> Inl es
              | Inr v' \<Rightarrow> Inr (name, v'))))"

definition validate :: "lax \<Rightarrow> schema \<Rightarrow> doc \<Rightarrow> verr list + doc" where
  "validate L s payload = collect (map (validate_field L payload) s)"

section \<open>The document store\<close>

text \<open>
  The database interprets a filter dictionary as a query. The model covers the queries
  the handlers build: an equality on a field, a \<^verbatim>\<open>$regex\<close> condition on a field with
  \<^verbatim>\<open>$options\<close> absent, empty or \<^verbatim>\<open>"i"\<close>, and a top-level \<^verbatim>\<open>$or\<close> of dictionaries of such
  conditions. A filter is compiled first, as a database parses a query before running
  it; a filter outside this fragment does not compile (\<open>None\<close>).

  A \<^verbatim>\<open>$regex\<close> pattern is a regular expression, not a plain text. The fragment covered
  here has the ordinary characters, which stand for themselves, and the dot, which
  stands for any character but a newline; a pattern with another metacharacter does not
  compile. With the option \<^verbatim>\<open>i\<close> letters are compared without case (ASCII letters; the
  model's strings are ASCII texts). A pattern is searched anywhere in the subject.
\<close>

datatype atom = Lit char | AnyChar

definition metachars :: "char list" where
  "metachars =
     [CHR 0x5C, CHR ''^'', CHR ''$'', CHR ''.'', CHR ''|'', CHR ''?'', CHR ''*'', CHR ''+'',
      CHR ''('', CHR '')'', CHR ''['', CHR '']'', CHR ''{'', CHR ''}'']"

fun regex_compile :: "string \<Rightarrow> atom list option" where
  "regex_compile [] = Some []"
| "regex_compile (c # cs) =
     (if c = CHR ''.'' then map_option ((#) AnyChar) (regex_compile cs)
      else if c \<in> set metachars then None
      else map_option ((#) (Lit c)) (regex_compile cs))"

definition lower :: "char \<Rightarrow> char" where
  "lower c =
     (case map_of (zip ''ABCDEFGHIJKLMNOPQRSTUVWXYZ'' ''abcdefghijklmnopqrstuvwxyz'') c of
        Some l \<Rightarrow> l
      | None \<Rightarrow> c)"

definition atom_matches :: "bool \<Rightarrow> atom \<Rightarrow> char \<Rightarrow> bool" where
  "atom_matches ci a c =
     (case a of
        AnyChar \<Rightarrow> c \<noteq> CHR 0x0A
      | Lit l \<Rightarrow> if ci then lower l = lower c else l = c)"

fun match_here :: "bool \<Rightarrow> atom list \<Rightarrow> string \<Rightarrow> bool" where
  "match_here ci [] s = True"
| "match_here ci (a # as) [] = False"
| "match_here ci (a # as) (c # cs) = (atom_matches ci a c \<and> match_here ci as cs)"

fun regex_search :: "bool \<Rightarrow> atom list \<Rightarrow> string \<Rightarrow> bool" where
  "regex_search ci as [] = match_here ci as []"
| "regex_search ci as (c # cs) = (match_here ci as (c # cs) \<or> regex_search ci as cs)"

datatype cond = Eq string jvalue | Regex string "atom list" bool

datatype clause = Cond cond | Or "cond list list"

definition compile_options :: "jvalue option \<Rightarrow> bool option" where
  "compile_options opts =
     (case opts of
        None \<Rightarrow> Some False
      | Some v \<Rightarrow>
          if v = JStr [] then Some False
          else if v = JStr ''i'' then Some True
          else None)"

definition compile_cond :: "string \<times> jvalue \<Rightarrow> cond option" where
  "compile_cond kv =
     (case kv of (k, v) \<Rightarrow>
        if k \<noteq> [] \<and> hd k = CHR ''$'' then None
        else
          (case v of
             JDict c \<Rightarrow>
               (case map_of c ''$regex'' of
                  Some (JStr p) \<Rightarrow>
                    (case regex_compile p of
                       None \<Rightarrow> None
                     | Some as \<Rightarrow> map_option (Regex k as) (compile_options (map_of c ''$options'')))
                | _ \<Rightarrow> None)
           | JList xs \<Rightarrow> None
           | _ \<Rightarrow> Some (Eq k v)))"

definition compile_conds :: "jvalue \<Rightarrow> cond list option" where
  "compile_conds v = (case v of JDict c \<Rightarrow> those (map compile_cond c) | _ \<Rightarrow> None)"

definition compile_clause :: "string \<times> jvalue \<Rightarrow> clause option" where
  "compile_clause kv =
     (case kv of (k, v) \<Rightarrow>
        if k = ''$or'' then
          (case v of
             JList fs \<Rightarrow> if fs = [] then None else map_option Or (those (map compile_conds fs))
           | _ \<Rightarrow> None)
        else map_option Cond (compile_cond (k, v)))"

definition compile_filter :: "doc \<Rightarrow> clause list option" where
  "compile_filter f = those (map compile_clause f)"

definition eval_cond :: "doc \<Rightarrow> cond \<Rightarrow> bool" where
  "eval_cond d c =
     (case c of
        Eq k v \<Rightarrow> map_of d k = Some v
      | Regex k as ci \<Rightarrow> (case map_of d k of Some (JStr s) \<Rightarrow> regex_search ci as s | _ \<Rightarrow> False))"

definition eval_clause :: "doc \<Rightarrow> clause \<Rightarrow> bool" where
  "eval_clause d cl =
     (case cl of
        Cond c \<Rightarrow> eval_cond d c
      | Or alts \<Rightarrow> list_ex (list_all (eval_cond d)) alts)"

definition eval_query :: "clause list \<Rightarrow> doc \<Rightarrow> bool" where
  "eval_query cls d = list_all (eval_clause d) cls"

definition matches :: "doc \<Rightarrow> doc \<Rightarrow> bool option" where
  "matches f d = map_option (\<lambda>cls. eval_query cls d) (compile_filter f)"

text \<open>
  The failures of the program: the exception the handlers raise themselves
  (\<^verbatim>\<open>HTTPException(status, detail)\<close>), the validation error of a request body, the
  failure of the store's \<open>create\<close> on an uninitialized store, a query outside the
  fragment above, and the access to an attribute a body does not have.
\<close>

datatype failure =
    HTTPException int string
  | RequestValidationError "verr list"
  | StoreUnavailable
  | QueryNotModelled
  | AttributeError string

record store =
  colls :: "string \<Rightarrow> doc list"
  next_oid :: nat

text \<open>
  Modelled from the spec: \<^verbatim>\<open>database.py\<close>, with \<^verbatim>\<open>db\<close>, \<^verbatim>\<open>get_documents\<close> and
  \<^verbatim>\<open>create_document\<close>, is not among the sources. The spec (4.2): \<open>query\<close> returns up to
  \<open>limit\<close> documents satisfying the predicate, an absent predicate matching all, in
  insertion order, and an empty sequence on an uninitialized store; \<open>create\<close> assigns a
  fresh identifier, persists the document with its field names unchanged, returns the
  identifier as a string, and fails with \<open>StoreUnavailable\<close> on an uninitialized store.
  \<open>db\<close> is \<open>None\<close> or a store: the collections, each a list in insertion order, and the
  next identifier.
\<close>

definition get_documents ::
  "store option \<Rightarrow> string \<Rightarrow> doc option \<Rightarrow> nat \<Rightarrow> failure + doc list" where
  "get_documents db collection_name filter_dict limit =
     (case db of
        None \<Rightarrow> Inr []
      | Some st \<Rightarrow>
          (case filter_dict of
             None \<Rightarrow> Inr (take limit (colls st collection_name))
           | Some f \<Rightarrow>
               (case compile_filter f of
                  None \<Rightarrow> Inl QueryNotModelled
                | Some cls \<Rightarrow> Inr (take limit (filter (eval_query cls) (colls st collection_name))))))"

definition create_document ::
  "(jvalue \<Rightarrow> string) \<Rightarrow> store option \<Rightarrow> string \<Rightarrow> doc \<Rightarrow> (failure + string) \<times> store option" where
  "create_document str_of db collection_name data =
     (case db of
        None \<Rightarrow> (Inl StoreUnavailable, None)
      | Some st \<Rightarrow>
          (let oid = JOid (next_oid st);
               stored = AList.update ''_id'' oid data
           in (Inr (str_of oid),
               Some (st\<lparr>colls := (colls st)(collection_name := colls st collection_name @ [stored]),
                        next_oid := Suc (next_oid st)\<rparr>))))"

section \<open>The handlers\<close>

text \<open>
  The handlers of \<^verbatim>\<open>main.py\<close>. The global \<^verbatim>\<open>db\<close> is the argument \<open>db\<close>. A handler that
  reads returns its value or a failure; a handler that creates returns the database as
  well. A \<^verbatim>\<open>limit\<close> is a natural number (the framework admits 1 to 100).
\<close>

definition unavailable :: failure where
  "unavailable = HTTPException 503 ''Database not available''"

definition normalize_all :: "(jvalue \<Rightarrow> string) \<Rightarrow> doc list \<Rightarrow> doc list" where
  "normalize_all str_of docs = map (normalize_id str_of) docs"

text \<open>
  Lines 180 to 194 of \<^verbatim>\<open>list_products\<close>. A parameter is \<open>None\<close> when the request does not
  have it; \<^verbatim>\<open>if q:\<close> is false for \<open>None\<close> and for the empty string, and so for the
  other four parameters.
\<close>

definition regex_i :: "string \<Rightarrow> string \<Rightarrow> jvalue" where
  "regex_i field_name q = JDict [(field_name, JDict [(''$regex'', JStr q), (''$options'', JStr ''i'')])]"

definition put_param :: "string \<Rightarrow> string option \<Rightarrow> doc \<Rightarrow> doc" where
  "put_param k p f =
     (case p of
        None \<Rightarrow> f
      | Some v \<Rightarrow> if v \<noteq> [] then AList.update k (JStr v) f else f)"

definition filter_dict ::
  "string option \<Rightarrow> string option \<Rightarrow> string option \<Rightarrow> string option \<Rightarrow> string option \<Rightarrow> doc" where
  "filter_dict q saree_type color material occasion =
     (let f0 = [];
          f1 = (case q of
                  None \<Rightarrow> f0
                | Some s \<Rightarrow>
                    if s \<noteq> []
                    then AList.update ''$or''
                           (JList [regex_i ''title'' s, regex_i ''description'' s]) f0
                    else f0);
          f2 = put_param ''saree_type'' saree_type f1;
          f3 = put_param ''color'' color f2;
          f4 = put_param ''material'' material f3;
          f5 = put_param ''occasion'' occasion f4
      in f5)"

definition list_products ::
  "(jvalue \<Rightarrow> string) \<Rightarrow> store option \<Rightarrow> string option \<Rightarrow> string option \<Rightarrow> string option \<Rightarrow>
   string option \<Rightarrow> string option \<Rightarrow> nat \<Rightarrow> failure + doc list" where
  "list_products str_of db q saree_type color material occasion limit =
     (if db = None then Inr []
      else
        (case get_documents db ''product''
                (Some (filter_dict q saree_type color material occasion)) limit of
           Inl e \<Rightarrow> Inl e
         | Inr docs \<Rightarrow> Inr (normalize_all str_of docs)))"

definition get_product :: "(jvalue \<Rightarrow> string) \<Rightarrow> store option \<Rightarrow> string \<Rightarrow> failure + doc" where
  "get_product str_of db slug =
     (if db = None then Inl unavailable
      else
        (case get_documents db ''product'' (Some [(''slug'', JStr slug)]) 1 of
           Inl e \<Rightarrow> Inl e
         | Inr docs \<Rightarrow>
             (case docs of
                [] \<Rightarrow> Inl (HTTPException 404 ''Product not found'')
              | d0 # _ \<Rightarrow>
                  (let d = normalize_id str_of d0 in
                   (case get_documents db ''review'' (Some [(''product_slug'', JStr slug)]) 50 of
                      Inl e \<Rightarrow> Inl e
                    | Inr reviews \<Rightarrow>
                        Inr (AList.update ''reviews''
                               (JList (map JDict (normalize_all str_of reviews))) d))))))"

definition create_product ::
  "(jvalue \<Rightarrow> string) \<Rightarrow> store option \<Rightarrow> doc \<Rightarrow> (failure + doc) \<times> store option" where
  "create_product str_of db body =
     (if db = None then (Inl unavailable, db)
      else
        (case create_document str_of db ''product'' body of
           (Inl e, db') \<Rightarrow> (Inl e, db')
         | (Inr pid, db') \<Rightarrow> (Inr [(''id'', JStr pid)], db')))"

definition list_vendors :: "(jvalue \<Rightarrow> string) \<Rightarrow> store option \<Rightarrow> nat \<Rightarrow> failure + doc list" where
  "list_vendors str_of db limit =
     (if db = None then Inr []
      else
        (case get_documents db ''vendor'' None limit of
           Inl e \<Rightarrow> Inl e
         | Inr docs \<Rightarrow> Inr (normalize_all str_of docs)))"

definition get_vendor :: "(jvalue \<Rightarrow> string) \<Rightarrow> store option \<Rightarrow> string \<Rightarrow> failure + doc" where
  "get_vendor str_of db slug =
     (if db = None then Inl unavailable
      else
        (case get_documents db ''vendor'' (Some [(''slug'', JStr slug)]) 1 of
           Inl e \<Rightarrow> Inl e
         | Inr docs \<Rightarrow>
             (case docs of
                [] \<Rightarrow> Inl (HTTPException 404 ''Vendor not found'')
              | d0 # _ \<Rightarrow>
                  (let d = normalize_id str_of d0 in
                   (case get_documents db ''product'' (Some [(''vendor_slug'', JStr slug)]) 50 of
                      Inl e \<Rightarrow> Inl e
                    | Inr products \<Rightarrow>
                        Inr (AList.update ''products''
                               (JList (map JDict (normalize_all str_of products))) d))))))"

definition create_vendor ::
  "(jvalue \<Rightarrow> string) \<Rightarrow> store option \<Rightarrow> doc \<Rightarrow> (failure + doc) \<times> store option" where
  "create_vendor str_of db body =
     (if db = None then (Inl unavailable, db)
      else
        (case create_document str_of db ''vendor'' body of
           (Inl e, db') \<Rightarrow> (Inl e, db')
         | (Inr vid, db') \<Rightarrow> (Inr [(''id'', JStr vid)], db')))"

definition list_reviews ::
  "(jvalue \<Rightarrow> string) \<Rightarrow> store option \<Rightarrow> string \<Rightarrow> nat \<Rightarrow> failure + doc list" where
  "list_reviews str_of db product_slug limit =
     (if db = None then Inr []
      else
        (case get_documents db ''review'' (Some [(''product_slug'', JStr product_slug)]) limit of
           Inl e \<Rightarrow> Inl e
         | Inr docs \<Rightarrow> Inr (normalize_all str_of docs)))"

definition create_review ::
  "(jvalue \<Rightarrow> string) \<Rightarrow> store option \<Rightarrow> doc \<Rightarrow> (failure + doc) \<times> store option" where
  "create_review str_of db body =
     (if db = None then (Inl unavailable, db)
      else
        (case create_document str_of db ''review'' body of
           (Inl e, db') \<Rightarrow> (Inl e, db')
         | (Inr rid, db') \<Rightarrow> (Inr [(''id'', JStr rid)], db')))"

definition create_order ::
  "(jvalue \<Rightarrow> string) \<Rightarrow> store option \<Rightarrow> doc \<Rightarrow> (failure + doc) \<times> store option" where
  "create_order str_of db body =
     (if db = None then (Inl unavailable, db)
      else
        (case create_document str_of db ''order'' body of
           (Inl e, db') \<Rightarrow> (Inl e, db')
         | (Inr oid, db') \<Rightarrow>
             (case map_of body ''status'' of
                None \<Rightarrow> (Inl (AttributeError ''status''), db')
              | Some s \<Rightarrow> (Inr [(''id'', JStr oid), (''status'', s)], db'))))"

definition default_categories :: "doc list" where
  "default_categories =
     [[(''name'', JStr ''Banarasi''), (''slug'', JStr ''banarasi'')],
      [(''name'', JStr ''Kanjivaram''), (''slug'', JStr ''kanjivaram'')],
      [(''name'', JStr ''Cotton''), (''slug'', JStr ''cotton'')],
      [(''name'', JStr ''Silk''), (''slug'', JStr ''silk'')],
      [(''name'', JStr ''Organza''), (''slug'', JStr ''organza'')]]"

definition list_categories :: "(jvalue \<Rightarrow> string) \<Rightarrow> store option \<Rightarrow> nat \<Rightarrow> failure + doc list" where
  "list_categories str_of db limit =
     (if db = None then Inr default_categories
      else
        (case get_documents db ''category'' None limit of
           Inl e \<Rightarrow> Inl e
         | Inr docs \<Rightarrow> Inr (normalize_all str_of docs)))"

text \<open>
  A handler declared with a body (\<^verbatim>\<open>def create_product(body: CreateProductBody)\<close> under
  \<^verbatim>\<open>@app.post\<close>) runs only on a payload that validates against the body's model; the
  framework answers a payload that does not validate with the validation error, each
  field error located under \<^verbatim>\<open>body\<close>, and the handler is not called. \<^verbatim>\<open>CreateProductBody\<close>
  is \<^verbatim>\<open>Product\<close> with nothing added, and so for the other three.
\<close>

definition in_body :: "verr list \<Rightarrow> verr list" where
  "in_body errs = map (\<lambda>(loc, k). (Key ''body'' # loc, k)) errs"

definition with_body ::
  "lax \<Rightarrow> schema \<Rightarrow> (store option \<Rightarrow> doc \<Rightarrow> (failure + doc) \<times> store option) \<Rightarrow>
   store option \<Rightarrow> doc \<Rightarrow> (failure + doc) \<times> store option" where
  "with_body L s handler db payload =
     (case validate L s payload of
        Inl errs \<Rightarrow> (Inl (RequestValidationError (in_body errs)), db)
      | Inr body \<Rightarrow> handler db body)"

definition post_products ::
  "lax \<Rightarrow> (jvalue \<Rightarrow> string) \<Rightarrow> store option \<Rightarrow> doc \<Rightarrow> (failure + doc) \<times> store option" where
  "post_products L str_of = with_body L Product (create_product str_of)"

definition post_vendors ::
  "lax \<Rightarrow> (jvalue \<Rightarrow> string) \<Rightarrow> store option \<Rightarrow> doc \<Rightarrow> (failure + doc) \<times> store option" where
  "post_vendors L str_of = with_body L Vendor (create_vendor str_of)"

definition post_reviews ::
  "lax \<Rightarrow> (jvalue \<Rightarrow> string) \<Rightarrow> store option \<Rightarrow> doc \<Rightarrow> (failure + doc) \<times> store option" where
  "post_reviews L str_of = with_body L Review (create_review str_of)"

definition post_orders ::
  "lax \<Rightarrow> (jvalue \<Rightarrow> string) \<Rightarrow> store option \<Rightarrow> doc \<Rightarrow> (failure + doc) \<times> store option" where
  "post_orders L str_of = with_body L Order (create_order str_of)"

section \<open>Sample data\<close>

text \<open>
  Concrete values for the examples below: a library that converts no string to an
  integer or a boolean and takes every string as a URL, a printing of identifiers, and
  a store holding the first seeded product, its vendor and two reviews, and the payload of
  the third seeded product without its optional fields, its images and its stock.
\<close>

definition no_coercion :: lax where
  "no_coercion = \<lparr>int_of_str = Map.empty, bool_of_str = Map.empty, url_of_str = Some\<rparr>"

definition oid_str :: "jvalue \<Rightarrow> string" where
  "oid_str v =
     (case v of
        JOid n \<Rightarrow>
          (case map_of [(0, ''65f0a''), (1, ''65f0b''), (2, ''65f0c''), (3, ''65f0d''),
                        (4, ''65f0e'')] n of
             Some s \<Rightarrow> s
           | None \<Rightarrow> ''65f0f'')
      | JStr s \<Rightarrow> s
      | _ \<Rightarrow> [])"

definition brocade :: doc where
  "brocade =
     [(''_id'', JOid 0),
      (''title'', JStr ''Royal Banarasi Brocade''),
      (''slug'', JStr ''royal-banarasi-brocade''),
      (''description'', JStr ''Rich zari work with traditional motifs.''),
      (''vendor_slug'', JStr ''varanasi-weaves''),
      (''price_in_paise'', JInt 899900),
      (''saree_type'', JStr ''Banarasi''),
      (''color'', JStr ''Maroon'')]"

definition review_a :: doc where
  "review_a =
     [(''_id'', JOid 1),
      (''product_slug'', JStr ''royal-banarasi-brocade''),
      (''rating'', JInt 5),
      (''author_name'', JStr ''Asha'')]"

definition review_b :: doc where
  "review_b =
     [(''_id'', JOid 2),
      (''product_slug'', JStr ''classic-kanjivaram-gold''),
      (''rating'', JInt 4),
      (''author_name'', JStr ''Meera'')]"

definition weaves :: doc where
  "weaves =
     [(''_id'', JOid 3),
      (''store_name'', JStr ''Varanasi Weaves''),
      (''slug'', JStr ''varanasi-weaves''),
      (''verified'', JBool True)]"

definition sample_colls :: "string \<Rightarrow> doc list" where
  "sample_colls name =
     (if name = ''product'' then [brocade]
      else if name = ''review'' then [review_a, review_b]
      else if name = ''vendor'' then [weaves]
      else [])"

definition sample_store :: store where
  "sample_store = \<lparr>colls = sample_colls, next_oid = 4\<rparr>"

definition breeze_payload :: doc where
  "breeze_payload =
     [(''title'', JStr ''Summer Breeze Cotton''),
      (''slug'', JStr ''summer-breeze-cotton''),
      (''vendor_slug'', JStr ''cotton-looms''),
      (''price_in_paise'', JInt 299900),
      (''saree_type'', JStr ''Cotton'')]"

section \<open>Notions used in the statements\<close>

text \<open>
  A text is a case-insensitive substring of another when its lower-case form occurs in
  the lower-case form of the other as a contiguous block. A pattern is literal when it
  has no metacharacter of the regular expressions.
\<close>

definition ci_substring :: "string \<Rightarrow> string \<Rightarrow> bool" where
  "ci_substring q s = sublist (map lower q) (map lower s)"

definition literal :: "string \<Rightarrow> bool" where
  "literal q = list_all (\<lambda>c. c \<notin> set metachars) q"

text \<open>The two kinds of entries that \<open>filter_dict\<close> puts into a filter.\<close>

definition text_clause :: "string option \<Rightarrow> doc" where
  "text_clause q =
     (case q of
        None \<Rightarrow> []
      | Some s \<Rightarrow>
          if s \<noteq> [] then [(''$or'', JList [regex_i ''title'' s, regex_i ''description'' s])]
          else [])"

definition params :: "string \<Rightarrow> string option \<Rightarrow> doc" where
  "params k p = (case p of None \<Rightarrow> [] | Some v \<Rightarrow> if v \<noteq> [] then [(k, JStr v)] else [])"

text \<open>The fields of a model that have no default, and a payload value an optional string
  field accepts.\<close>

definition required_fields :: "schema \<Rightarrow> string list" where
  "required_fields s = map fst (filter (\<lambda>f. snd (snd f) = Required) s)"

definition optional_str :: "jvalue option \<Rightarrow> bool" where
  "optional_str x =
     (case x of
        None \<Rightarrow> True
      | Some JNull \<Rightarrow> True
      | Some (JStr s) \<Rightarrow> True
      | _ \<Rightarrow> False)"

section \<open>Identifier normalization\<close>

lemma normalize_id_absent:
  "map_of d ''_id'' = None \<Longrightarrow> normalize_id str_of d = d"
  by (simp add: normalize_id_def)

lemma normalize_id_no_internal:
  "map_of (normalize_id str_of d) ''_id'' = None"
  by (simp add: normalize_id_def update_conv' delete_conv' split: option.split)

lemma normalize_id_external:
  "map_of d ''_id'' = Some v \<Longrightarrow> map_of (normalize_id str_of d) ''id'' = Some (JStr (str_of v))"
  by (simp add: normalize_id_def update_conv')

text \<open>
  Claim C7. Identifier normalization leaves a document without the internal field
  \<open>_id\<close> unchanged; its output never has the field \<open>_id\<close> (so never \<open>_id\<close> next to
  \<open>id\<close>); when the input has \<open>_id\<close>, the output's \<open>id\<close> is the string form of its value;
  and normalizing twice is normalizing once.
\<close>

theorem normalize_id_idempotent:
  "(map_of d ''_id'' = None \<longrightarrow> normalize_id str_of d = d)
   \<and> ''_id'' \<notin> fst ` set (normalize_id str_of d)
   \<and> (\<forall>v. map_of d ''_id'' = Some v \<longrightarrow>
          map_of (normalize_id str_of d) ''id'' = Some (JStr (str_of v)))
   \<and> normalize_id str_of (normalize_id str_of d) = normalize_id str_of d"
proof -
  have absent: "map_of (normalize_id str_of d) ''_id'' = None"
    by (rule normalize_id_no_internal)
  then have "''_id'' \<notin> fst ` set (normalize_id str_of d)"
    by (simp add: map_of_eq_None_iff)
  moreover have "normalize_id str_of (normalize_id str_of d) = normalize_id str_of d"
    using absent by (rule normalize_id_absent)
  ultimately show ?thesis
    by (simp add: normalize_id_absent normalize_id_external)
qed

theorem normalize_id_idempotent_witness:
  "normalize_id (\<lambda>v. ''507f'') [(''title'', JStr ''Silk'')] = [(''title'', JStr ''Silk'')]
   \<and> map_of (normalize_id (\<lambda>v. ''507f'') [(''_id'', JOid 7), (''title'', JStr ''Silk'')]) ''id''
       = Some (JStr ''507f'')
   \<and> normalize_id (\<lambda>v. ''507f'') [(''_id'', JOid 7), (''title'', JStr ''Silk'')]
       = [(''title'', JStr ''Silk''), (''id'', JStr ''507f'')]"
  using normalize_id_idempotent [of "[(''title'', JStr ''Silk'')]" "\<lambda>v. ''507f''"]
    normalize_id_idempotent [of "[(''_id'', JOid 7), (''title'', JStr ''Silk'')]" "\<lambda>v. ''507f''"]
  by (simp add: normalize_id_def AList.delete_eq)

section \<open>Queries\<close>

lemma regex_compile_literal: "literal q \<Longrightarrow> regex_compile q = Some (map Lit q)"
  by (induction q) (auto simp: literal_def metachars_def)

lemma match_here_literal: "match_here True (map Lit q) s = prefix (map lower q) (map lower s)"
  by (induction q arbitrary: s; case_tac s) (auto simp: atom_matches_def)

lemma regex_search_literal: "regex_search True (map Lit q) s = ci_substring q s"
  unfolding ci_substring_def
  by (induction s) (auto simp: match_here_literal sublist_Cons_right)

lemma filter_dict_parts:
  "filter_dict q a b c e =
     text_clause q @ params ''saree_type'' a @ params ''color'' b @ params ''material'' c
       @ params ''occasion'' e"
  by (simp add: filter_dict_def put_param_def text_clause_def params_def split: option.split)

lemma those_append:
  "those (xs @ ys) = (case those xs of None \<Rightarrow> None | Some a \<Rightarrow> map_option ((@) a) (those ys))"
  by (induction xs; cases "those ys") (auto split: option.splits)

lemma matches_append:
  "matches (f @ g) d =
     (case matches f d of None \<Rightarrow> None | Some x \<Rightarrow> map_option ((\<and>) x) (matches g d))"
  by (cases "those (map compile_clause g)")
    (auto simp: matches_def compile_filter_def those_append eval_query_def split: option.splits)

lemma matches_Nil: "matches [] d = Some True"
  by (simp add: matches_def compile_filter_def eval_query_def)

lemma matches_eq:
  "k \<noteq> ''$or'' \<Longrightarrow> hd k \<noteq> CHR ''$'' \<Longrightarrow>
   matches [(k, JStr v)] d = Some (map_of d k = Some (JStr v))"
  by (simp add: matches_def compile_filter_def compile_clause_def compile_cond_def eval_query_def
      eval_clause_def eval_cond_def)

lemma matches_params:
  "k \<noteq> ''$or'' \<Longrightarrow> hd k \<noteq> CHR ''$'' \<Longrightarrow>
   matches (params k p) d = Some (\<forall>v. p = Some v \<longrightarrow> v \<noteq> [] \<longrightarrow> map_of d k = Some (JStr v))"
  by (cases p) (simp_all add: params_def matches_Nil matches_eq)

lemma matches_regex:
  "regex_compile s = Some as \<Longrightarrow>
   matches [(''$or'', JList [regex_i ''title'' s, regex_i ''description'' s])] d =
     Some ((case map_of d ''title'' of Some (JStr t) \<Rightarrow> regex_search True as t | _ \<Rightarrow> False)
         \<or> (case map_of d ''description'' of Some (JStr t) \<Rightarrow> regex_search True as t | _ \<Rightarrow> False))"
  by (simp add: matches_def compile_filter_def compile_clause_def compile_conds_def
      compile_cond_def compile_options_def regex_i_def eval_query_def eval_clause_def eval_cond_def)

lemma search_field:
  "(case x of Some (JStr t) \<Rightarrow> regex_search True (map Lit s) t | _ \<Rightarrow> False)
     = (\<exists>t. x = Some (JStr t) \<and> ci_substring s t)"
  by (auto simp: regex_search_literal split: option.splits jvalue.splits)

lemma matches_text:
  "literal s \<Longrightarrow> s \<noteq> [] \<Longrightarrow>
   matches (text_clause (Some s)) d =
     Some ((\<exists>t. map_of d ''title'' = Some (JStr t) \<and> ci_substring s t)
         \<or> (\<exists>t. map_of d ''description'' = Some (JStr t) \<and> ci_substring s t))"
  by (simp add: text_clause_def matches_regex [OF regex_compile_literal] search_field)

text \<open>
  Claim C2, as the code has it. For a free-text parameter \<open>q\<close> that is not empty and has
  no metacharacter of the regular expressions, the predicate of the product listing
  matches a document exactly when \<open>q\<close> is a case-insensitive substring of the document's
  title or of its description, each taken when it is a string.
\<close>

theorem text_search_literal:
  assumes "literal s" and "s \<noteq> []"
  shows "matches (filter_dict (Some s) None None None None) d =
     Some ((\<exists>t. map_of d ''title'' = Some (JStr t) \<and> ci_substring s t)
         \<or> (\<exists>t. map_of d ''description'' = Some (JStr t) \<and> ci_substring s t))"
  using assms by (simp add: filter_dict_parts matches_text params_def)

theorem text_search_literal_witness:
  "literal ''banarasi'' \<and> ''banarasi'' \<noteq> []
   \<and> matches (filter_dict (Some ''banarasi'') None None None None) brocade = Some True
   \<and> matches (filter_dict (Some ''banarasi'') None None None None) breeze_payload = Some False"
proof -
  have l: "literal ''banarasi''"
    by (simp add: literal_def metachars_def)
  have n: "''banarasi'' \<noteq> []"
    by simp
  show ?thesis
    using l text_search_literal [OF l n, of brocade] text_search_literal [OF l n, of breeze_payload]
    by (simp add: brocade_def breeze_payload_def ci_substring_def lower_def sublist_code)
qed

text \<open>
  Claim C2 as stated fails: \<open>q\<close> is a regular expression for the database. The pattern
  \<open>b.n\<close> matches the title "Royal Banarasi Brocade" (at "Ban"), and is a substring of
  neither the title nor the description.
\<close>

theorem text_search_regex_counterexample:
  "matches (filter_dict (Some ''b.n'') None None None None) brocade = Some True
   \<and> map_of brocade ''title'' = Some (JStr ''Royal Banarasi Brocade'')
   \<and> \<not> ci_substring ''b.n'' ''Royal Banarasi Brocade''
   \<and> map_of brocade ''description'' = Some (JStr ''Rich zari work with traditional motifs.'')
   \<and> \<not> ci_substring ''b.n'' ''Rich zari work with traditional motifs.''"
  by (simp add: matches_def compile_filter_def compile_clause_def compile_conds_def
      compile_cond_def compile_options_def regex_i_def eval_query_def eval_clause_def
      eval_cond_def filter_dict_def put_param_def metachars_def atom_matches_def lower_def
      brocade_def ci_substring_def sublist_code)

text \<open>
  Claim C3, as the code has it. When no parameter is the empty string and \<open>q\<close>, if
  present, is literal, the predicate of the product listing is the conjunction of one
  clause for each present parameter: for \<open>q\<close> the text search of claim C2, for
  \<open>saree_type\<close>, \<open>color\<close>, \<open>material\<close> and \<open>occasion\<close> the equality of the field with the
  parameter's value, as strings (so with the case). With no parameter the conjunction is
  empty and every document matches.
\<close>

theorem filter_conjunction:
  assumes "\<forall>s. q = Some s \<longrightarrow> s \<noteq> [] \<and> literal s"
    and "a \<noteq> Some []" and "b \<noteq> Some []" and "c \<noteq> Some []" and "e \<noteq> Some []"
  shows "matches (filter_dict q a b c e) d =
     Some ((\<forall>s. q = Some s \<longrightarrow>
               (\<exists>t. map_of d ''title'' = Some (JStr t) \<and> ci_substring s t)
             \<or> (\<exists>t. map_of d ''description'' = Some (JStr t) \<and> ci_substring s t))
       \<and> (\<forall>v. a = Some v \<longrightarrow> map_of d ''saree_type'' = Some (JStr v))
       \<and> (\<forall>v. b = Some v \<longrightarrow> map_of d ''color'' = Some (JStr v))
       \<and> (\<forall>v. c = Some v \<longrightarrow> map_of d ''material'' = Some (JStr v))
       \<and> (\<forall>v. e = Some v \<longrightarrow> map_of d ''occasion'' = Some (JStr v)))"
proof -
  have t: "matches (text_clause q) d =
     Some (\<forall>s. q = Some s \<longrightarrow>
               (\<exists>t. map_of d ''title'' = Some (JStr t) \<and> ci_substring s t)
             \<or> (\<exists>t. map_of d ''description'' = Some (JStr t) \<and> ci_substring s t))"
  proof (cases q)
    case None
    then show ?thesis by (simp add: text_clause_def matches_Nil)
  next
    case (Some s)
    with assms(1) show ?thesis by (simp add: matches_text)
  qed
  have p: "matches (params k p) d = Some (\<forall>v. p = Some v \<longrightarrow> map_of d k = Some (JStr v))"
    if "k \<noteq> ''$or''" and "hd k \<noteq> CHR ''$''" and "p \<noteq> Some []" for k p
    using that by (auto simp: matches_params)
  show ?thesis
    using assms(2-) by (simp add: filter_dict_parts matches_append t p)
qed

theorem filter_conjunction_witness:
  "matches (filter_dict None None None None None) brocade = Some True
   \<and> matches (filter_dict None (Some ''Cotton'') None None None) breeze_payload = Some True
   \<and> matches (filter_dict None (Some ''Cotton'') None None None) brocade = Some False
   \<and> matches (filter_dict None (Some ''cotton'') None None None) breeze_payload = Some False
   \<and> matches (filter_dict (Some ''zari'') (Some ''Banarasi'') (Some ''Maroon'') None None) brocade
       = Some True
   \<and> matches (filter_dict (Some ''zari'') (Some ''Banarasi'') (Some ''Indigo'') None None) brocade
       = Some False"
proof -
  have l: "\<forall>s. Some ''zari'' = Some s \<longrightarrow> s \<noteq> [] \<and> literal s"
    by (simp add: literal_def metachars_def)
  have n: "\<forall>s. (None :: string option) = Some s \<longrightarrow> s \<noteq> [] \<and> literal s"
    by simp
  show ?thesis
    using filter_conjunction [OF n, of None None None None brocade]
      filter_conjunction [OF n, of "Some ''Cotton''" None None None breeze_payload]
      filter_conjunction [OF n, of "Some ''Cotton''" None None None brocade]
      filter_conjunction [OF n, of "Some ''cotton''" None None None breeze_payload]
      filter_conjunction [OF l, of "Some ''Banarasi''" "Some ''Maroon''" None None brocade]
      filter_conjunction [OF l, of "Some ''Banarasi''" "Some ''Indigo''" None None brocade]
    by (simp add: brocade_def breeze_payload_def ci_substring_def lower_def sublist_code)
qed

text \<open>
  Claim C3 as stated fails for a parameter that is present and empty: \<open>saree_type=""\<close>
  contributes no clause, and a document whose \<open>saree_type\<close> is "Banarasi" matches.
\<close>

theorem empty_parameter_counterexample:
  "matches (filter_dict None (Some []) None None None) brocade = Some True
   \<and> map_of brocade ''saree_type'' = Some (JStr ''Banarasi'')"
  by (simp add: filter_dict_def put_param_def matches_Nil brocade_def)

text \<open>
  Claim C10. In the product listing a parameter given as the empty string is treated as
  an absent one: the filter built is the same, whatever the other parameters are. A
  request whose five parameters are empty strings builds the empty filter, which matches
  every document, and lists what the request without parameters lists.
\<close>

theorem empty_parameter_absent:
  "filter_dict (Some []) a b c e = filter_dict None a b c e
   \<and> filter_dict q (Some []) b c e = filter_dict q None b c e
   \<and> filter_dict q a (Some []) c e = filter_dict q a None c e
   \<and> filter_dict q a b (Some []) e = filter_dict q a b None e
   \<and> filter_dict q a b c (Some []) = filter_dict q a b c None
   \<and> filter_dict (Some []) (Some []) (Some []) (Some []) (Some []) = []
   \<and> matches (filter_dict (Some []) (Some []) (Some []) (Some []) (Some [])) d = Some True
   \<and> list_products str_of db (Some []) (Some []) (Some []) (Some []) (Some []) limit
       = list_products str_of db None None None None None limit"
  by (simp add: list_products_def filter_dict_parts text_clause_def params_def matches_Nil)

section \<open>Validation of payloads\<close>

lemma collect_map_Inr: "collect (map Inr xs) = Inr xs"
  by (induction xs) auto

lemma collect_Inr_D: "collect rs = Inr xs \<Longrightarrow> rs = map Inr xs"
  by (induction rs arbitrary: xs) (auto split: sum.splits)

lemma collect_Inr_iff: "collect rs = Inr xs \<longleftrightarrow> rs = map Inr xs"
  using collect_map_Inr collect_Inr_D by blast

lemma collect_Inl_mem:
  "collect rs = Inl es \<Longrightarrow> x \<in> set es \<longleftrightarrow> (\<exists>e. Inl e \<in> set rs \<and> x \<in> set e)"
  by (induction rs arbitrary: es) (auto split: sum.splits simp: collect_Inr_iff)

lemma collect_Inl_ex: "Inl e \<in> set rs \<Longrightarrow> \<exists>es. collect rs = Inl es"
  by (cases "collect rs") (auto simp: collect_Inr_iff)

lemma at_loc_kind:
  "at_loc l r = Inl es \<Longrightarrow> (loc, k) \<in> set es \<Longrightarrow> \<exists>es' loc'. r = Inl es' \<and> (loc', k) \<in> set es'"
  by (auto simp: at_loc_def split: sum.splits)

lemma coerce_no_missing: "coerce L t v = Inl es \<Longrightarrow> (loc, Missing) \<notin> set es"
proof (induction L t v arbitrary: es loc rule: coerce.induct)
  case (7 L t v)
  show ?case
  proof (cases v)
    case (JList xs)
    with "7.prems" have c:
      "collect (map (\<lambda>(i, x). at_loc (Idx i) (coerce L t x)) (enumerate 0 xs)) = Inl es"
      by (simp split: sum.splits)
    show ?thesis
    proof
      assume "(loc, Missing) \<in> set es"
      with collect_Inl_mem [OF c] obtain e where
        e: "Inl e \<in> set (map (\<lambda>(i, x). at_loc (Idx i) (coerce L t x)) (enumerate 0 xs))"
        and m: "(loc, Missing) \<in> set e" by blast
      from e obtain i x where ix: "(i, x) \<in> set (enumerate 0 xs)"
        and al: "at_loc (Idx i) (coerce L t x) = Inl e" by auto
      from at_loc_kind [OF al m] obtain es' loc' where
        "coerce L t x = Inl es'" and "(loc', Missing) \<in> set es'"
        by blast
      with "7.IH" [OF JList ix refl] show False by blast
    qed
  qed (use "7.prems" in auto)
qed (auto simp: to_int_def check_bounds_def to_bool_def to_url_def
       split: jvalue.splits sum.splits option.splits if_splits)

lemma validate_field_missing:
  "validate_field L p f = Inl e \<Longrightarrow> (loc, Missing) \<in> set e \<Longrightarrow>
   \<exists>n t. f = (n, t, Required) \<and> map_of p n = None \<and> loc = [Key n]"
  by (cases f) (auto simp: validate_field_def split: option.splits fdefault.splits sum.splits
      dest: at_loc_kind coerce_no_missing)

lemma validate_Inl_I:
  assumes "f \<in> set S" and "validate_field L p f = Inl e" and "x \<in> set e"
  shows "\<exists>es. validate L S p = Inl es \<and> x \<in> set es"
proof -
  from assms have m: "Inl e \<in> set (map (validate_field L p) S)" by force
  from collect_Inl_ex [OF m] obtain es where es: "collect (map (validate_field L p) S) = Inl es" ..
  with collect_Inl_mem [OF es, of x] m assms(3) show ?thesis by (auto simp: validate_def)
qed

lemma validate_field_name: "validate_field L p (n, t, d) = Inr x \<Longrightarrow> \<exists>y. x = (n, y)"
  by (auto simp: validate_field_def split: option.splits fdefault.splits sum.splits)

lemma validate_field_delete:
  "n \<noteq> k \<Longrightarrow> validate_field L (AList.delete k p) (n, t, d) = validate_field L p (n, t, d)"
  by (simp add: validate_field_def delete_conv')

lemma validate_field_default:
  "validate_field L (AList.delete k p) (k, t, Default v) = Inr (k, v)"
  by (simp add: validate_field_def delete_conv')

lemma validate_Product_shape:
  assumes "validate L Product p = Inr v"
  shows "\<exists>y1 y2 y3 y4 y5 y6 y7 y8 y9 y10 y11 y12.
      v = [(''title'', y1), (''slug'', y2), (''description'', y3), (''vendor_slug'', y4),
           (''price_in_paise'', y5), (''saree_type'', y6), (''color'', y7), (''material'', y8),
           (''occasion'', y9), (''care'', y10), (''images'', y11), (''stock'', y12)]"
proof -
  from assms have "map (validate_field L p) Product = map Inr v"
    by (simp add: validate_def collect_Inr_iff)
  then show ?thesis
    unfolding Product_def
    by (auto simp: Cons_eq_map_conv dest!: validate_field_name)
qed

lemma validate_Order_status:
  assumes "validate L Order p = Inr v"
  shows "\<exists>s. map_of v ''status'' = Some s"
proof -
  from assms have "map (validate_field L p) Order = map Inr v"
    by (simp add: validate_def collect_Inr_iff)
  then show ?thesis
    unfolding Order_def
    by (auto simp: Cons_eq_map_conv dest!: validate_field_name)
qed

text \<open>
  Claim C5. A review payload whose rating is an integer below 1 (as 0) or above 5 (as 6)
  fails validation, with an error at the field \<open>rating\<close>, whatever its other fields are.
  A review payload whose rating is an integer from 1 to 5 (as 1 and 5), whose
  \<open>product_slug\<close> is a string and whose \<open>comment\<close> and \<open>author_name\<close> are absent, null or
  strings, validates, and the validated document has that rating.
\<close>

theorem review_rating_bounds:
  "(map_of p ''rating'' = Some (JInt r) \<and> r < 1 \<longrightarrow>
      (\<exists>es. validate L Review p = Inl es \<and> ([Key ''rating''], GreaterThanEqual 1) \<in> set es))
   \<and> (map_of p ''rating'' = Some (JInt r) \<and> 5 < r \<longrightarrow>
      (\<exists>es. validate L Review p = Inl es \<and> ([Key ''rating''], LessThanEqual 5) \<in> set es))
   \<and> (map_of p ''rating'' = Some (JInt r) \<and> 1 \<le> r \<and> r \<le> 5
        \<and> map_of p ''product_slug'' = Some (JStr s)
        \<and> optional_str (map_of p ''comment'') \<and> optional_str (map_of p ''author_name'') \<longrightarrow>
      (\<exists>v. validate L Review p = Inr v \<and> map_of v ''rating'' = Some (JInt r)
           \<and> map_of v ''product_slug'' = Some (JStr s)))"
proof (intro conjI impI)
  assume a: "map_of p ''rating'' = Some (JInt r) \<and> r < 1"
  have "validate_field L p (''rating'', TInt (Some 1) (Some 5), Required)
          = Inl [([Key ''rating''], GreaterThanEqual 1)]"
    using a by (simp add: validate_field_def to_int_def check_bounds_def at_loc_def)
  from validate_Inl_I [OF _ this, of Review] show
    "\<exists>es. validate L Review p = Inl es \<and> ([Key ''rating''], GreaterThanEqual 1) \<in> set es"
    by (simp add: Review_def)
next
  assume a: "map_of p ''rating'' = Some (JInt r) \<and> 5 < r"
  have "validate_field L p (''rating'', TInt (Some 1) (Some 5), Required)
          = Inl [([Key ''rating''], LessThanEqual 5)]"
    using a by (simp add: validate_field_def to_int_def check_bounds_def at_loc_def)
  from validate_Inl_I [OF _ this, of Review] show
    "\<exists>es. validate L Review p = Inl es \<and> ([Key ''rating''], LessThanEqual 5) \<in> set es"
    by (simp add: Review_def)
next
  assume a: "map_of p ''rating'' = Some (JInt r) \<and> 1 \<le> r \<and> r \<le> 5
        \<and> map_of p ''product_slug'' = Some (JStr s)
        \<and> optional_str (map_of p ''comment'') \<and> optional_str (map_of p ''author_name'')"
  have o: "\<exists>y. validate_field L p (k, TOptional TStr, Default JNull) = Inr (k, y)"
    if "optional_str (map_of p k)" for k
    using that
    by (auto simp: optional_str_def validate_field_def at_loc_def split: option.splits jvalue.splits)
  from a o [of "''comment''"] o [of "''author_name''"]
  show "\<exists>v. validate L Review p = Inr v \<and> map_of v ''rating'' = Some (JInt r)
           \<and> map_of v ''product_slug'' = Some (JStr s)"
    by (auto simp: validate_def Review_def validate_field_def to_int_def check_bounds_def at_loc_def)
qed

theorem review_rating_bounds_witness:
  "validate no_coercion Review [(''product_slug'', JStr ''royal-banarasi-brocade''), (''rating'', JInt 0)]
     = Inl [([Key ''rating''], GreaterThanEqual 1)]
   \<and> validate no_coercion Review [(''product_slug'', JStr ''royal-banarasi-brocade''), (''rating'', JInt 6)]
     = Inl [([Key ''rating''], LessThanEqual 5)]
   \<and> validate no_coercion Review [(''product_slug'', JStr ''royal-banarasi-brocade''), (''rating'', JInt 1)]
     = Inr [(''product_slug'', JStr ''royal-banarasi-brocade''), (''rating'', JInt 1),
            (''comment'', JNull), (''author_name'', JNull)]
   \<and> validate no_coercion Review [(''product_slug'', JStr ''royal-banarasi-brocade''), (''rating'', JInt 5)]
     = Inr [(''product_slug'', JStr ''royal-banarasi-brocade''), (''rating'', JInt 5),
            (''comment'', JNull), (''author_name'', JNull)]"
  using
    review_rating_bounds [of "[(''product_slug'', JStr ''royal-banarasi-brocade''), (''rating'', JInt 0)]"
      0 no_coercion "''royal-banarasi-brocade''"]
    review_rating_bounds [of "[(''product_slug'', JStr ''royal-banarasi-brocade''), (''rating'', JInt 6)]"
      6 no_coercion "''royal-banarasi-brocade''"]
    review_rating_bounds [of "[(''product_slug'', JStr ''royal-banarasi-brocade''), (''rating'', JInt 1)]"
      1 no_coercion "''royal-banarasi-brocade''"]
    review_rating_bounds [of "[(''product_slug'', JStr ''royal-banarasi-brocade''), (''rating'', JInt 5)]"
      5 no_coercion "''royal-banarasi-brocade''"]
  by (simp add: validate_def Review_def validate_field_def to_int_def check_bounds_def at_loc_def
      optional_str_def)

text \<open>
  Claim C6, as the code has it. The fields without a default are: for a category
  \<open>name\<close> and \<open>slug\<close>; for a vendor \<open>store_name\<close> and \<open>slug\<close>; for a product \<open>title\<close>,
  \<open>slug\<close>, \<open>vendor_slug\<close>, \<open>price_in_paise\<close> and \<open>saree_type\<close>; for a review \<open>product_slug\<close>
  and \<open>rating\<close>; for an order \<open>buyer_name\<close>, \<open>buyer_email\<close>, \<open>vendor_slug\<close>, \<open>items\<close> and
  \<open>total_in_paise\<close>. A payload that lacks one of them fails validation; the errors name
  that field as missing, and name as missing only such fields that the payload lacks;
  and the create request returns the validation error and leaves the store as it is.
\<close>

theorem missing_required_field:
  assumes "name \<in> set (required_fields S)" and "map_of p name = None"
  shows "(\<exists>es. validate L S p = Inl es \<and> ([Key name], Missing) \<in> set es
       \<and> (\<forall>n. ([Key n], Missing) \<in> set es \<longrightarrow> map_of p n = None \<and> n \<in> set (required_fields S))
       \<and> with_body L S handler db p = (Inl (RequestValidationError (in_body es)), db))
     \<and> required_fields Category = [''name'', ''slug'']
     \<and> required_fields Vendor = [''store_name'', ''slug'']
     \<and> required_fields Product =
         [''title'', ''slug'', ''vendor_slug'', ''price_in_paise'', ''saree_type'']
     \<and> required_fields Review = [''product_slug'', ''rating'']
     \<and> required_fields Order =
         [''buyer_name'', ''buyer_email'', ''vendor_slug'', ''items'', ''total_in_paise'']"
proof -
  from assms(1) obtain t where t: "(name, t, Required) \<in> set S"
    by (auto simp: required_fields_def)
  have "validate_field L p (name, t, Required) = Inl [([Key name], Missing)]"
    using assms(2) by (simp add: validate_field_def)
  then have m: "Inl [([Key name], Missing)] \<in> set (map (validate_field L p) S)"
    using t by force
  from collect_Inl_ex [OF m] obtain es where es: "validate L S p = Inl es"
    by (auto simp: validate_def)
  have 1: "([Key name], Missing) \<in> set es"
    using collect_Inl_mem [OF es [unfolded validate_def]] m by auto
  have 2: "map_of p n = None \<and> n \<in> set (required_fields S)" if n: "([Key n], Missing) \<in> set es" for n
  proof -
    from collect_Inl_mem [OF es [unfolded validate_def]] n obtain e where
      "Inl e \<in> set (map (validate_field L p) S)" and ne: "([Key n], Missing) \<in> set e" by blast
    then obtain f where f: "f \<in> set S" and vf: "validate_field L p f = Inl e" by auto
    from validate_field_missing [OF vf ne] f show ?thesis
      by (force simp: required_fields_def)
  qed
  have 3: "required_fields Category = [''name'', ''slug'']"
    by (simp add: required_fields_def Category_def)
  have 4: "required_fields Vendor = [''store_name'', ''slug'']"
    by (simp add: required_fields_def Vendor_def)
  have 5: "required_fields Product =
         [''title'', ''slug'', ''vendor_slug'', ''price_in_paise'', ''saree_type'']"
    by (simp add: required_fields_def Product_def)
  have 6: "required_fields Review = [''product_slug'', ''rating'']"
    by (simp add: required_fields_def Review_def)
  have 7: "required_fields Order =
         [''buyer_name'', ''buyer_email'', ''vendor_slug'', ''items'', ''total_in_paise'']"
    by (simp add: required_fields_def Order_def)
  from es 1 2 have "\<exists>es. validate L S p = Inl es \<and> ([Key name], Missing) \<in> set es
       \<and> (\<forall>n. ([Key n], Missing) \<in> set es \<longrightarrow> map_of p n = None \<and> n \<in> set (required_fields S))
       \<and> with_body L S handler db p = (Inl (RequestValidationError (in_body es)), db)"
    by (auto simp: with_body_def)
  with 3 4 5 6 7 show ?thesis by blast
qed

theorem missing_required_field_witness:
  "''saree_type'' \<in> set (required_fields Product)
   \<and> map_of [(''title'', JStr ''Summer Breeze Cotton''), (''slug'', JStr ''summer-breeze-cotton''),
             (''vendor_slug'', JStr ''cotton-looms''), (''price_in_paise'', JInt 299900)]
        ''saree_type'' = None
   \<and> post_products no_coercion oid_str (Some sample_store)
        [(''title'', JStr ''Summer Breeze Cotton''), (''slug'', JStr ''summer-breeze-cotton''),
         (''vendor_slug'', JStr ''cotton-looms''), (''price_in_paise'', JInt 299900)]
       = (Inl (RequestValidationError [([Key ''body'', Key ''saree_type''], Missing)]),
          Some sample_store)"
proof -
  have r: "''saree_type'' \<in> set (required_fields Product)"
    by (simp add: required_fields_def Product_def)
  have a: "map_of [(''title'', JStr ''Summer Breeze Cotton''), (''slug'', JStr ''summer-breeze-cotton''),
             (''vendor_slug'', JStr ''cotton-looms''), (''price_in_paise'', JInt 299900)]
        ''saree_type'' = None"
    by simp
  show ?thesis
    using r missing_required_field [OF r a, of no_coercion "create_product oid_str" "Some sample_store"]
    by (simp add: post_products_def with_body_def in_body_def validate_def Product_def
        validate_field_def to_int_def check_bounds_def at_loc_def)
qed

text \<open>
  Claim C6 as stated fails for the fields that have a default: a product payload without
  \<open>images\<close> and \<open>stock\<close> validates, and the create request stores it.
\<close>

theorem product_defaults_counterexample:
  "map_of breeze_payload ''images'' = None
   \<and> map_of breeze_payload ''stock'' = None
   \<and> validate no_coercion Product breeze_payload =
       Inr [(''title'', JStr ''Summer Breeze Cotton''),
            (''slug'', JStr ''summer-breeze-cotton''),
            (''description'', JNull),
            (''vendor_slug'', JStr ''cotton-looms''),
            (''price_in_paise'', JInt 299900),
            (''saree_type'', JStr ''Cotton''),
            (''color'', JNull),
            (''material'', JNull),
            (''occasion'', JNull),
            (''care'', JNull),
            (''images'', JList []),
            (''stock'', JInt 10)]
   \<and> fst (post_products no_coercion oid_str (Some sample_store) breeze_payload)
       = Inr [(''id'', JStr ''65f0e'')]"
  by (simp add: breeze_payload_def validate_def Product_def validate_field_def to_int_def
      check_bounds_def at_loc_def post_products_def with_body_def create_product_def
      create_document_def sample_store_def oid_str_def Let_def)

lemma validate_field_optional_str:
  "optional_str (map_of p k) \<Longrightarrow>
   \<exists>y. validate_field L p (k, TOptional TStr, Default JNull) = Inr (k, y)"
  by (auto simp: optional_str_def validate_field_def at_loc_def split: option.splits jvalue.splits)

lemma validate_field_str:
  "map_of p k = Some (JStr s) \<Longrightarrow> validate_field L p (k, TStr, d) = Inr (k, JStr s)"
  by (simp add: validate_field_def at_loc_def)

lemma validate_field_int:
  "map_of p k = Some (JInt n) \<Longrightarrow> 0 \<le> n \<Longrightarrow>
   validate_field L p (k, TInt (Some 0) None, d) = Inr (k, JInt n)"
  by (simp add: validate_field_def at_loc_def to_int_def check_bounds_def)

lemma validate_field_absent:
  "map_of p k = None \<Longrightarrow> validate_field L p (k, t, Default v) = Inr (k, v)"
  by (simp add: validate_field_def)

text \<open>
  Claim C9. A product payload without \<open>stock\<close> and \<open>images\<close>, whose \<open>title\<close>, \<open>slug\<close>,
  \<open>vendor_slug\<close> and \<open>saree_type\<close> are strings, whose \<open>price_in_paise\<close> is an integer that is
  not negative and whose other fields are absent, null or strings, validates, and the
  validated document has the stock 10 and the empty list of images. More generally, a
  product payload that validates still validates when \<open>stock\<close>, \<open>images\<close> or both are
  taken out of it, and the validated document is the same but for \<open>stock\<close>, which is 10,
  and \<open>images\<close>, which is the empty list.
\<close>

theorem product_stock_images_default:
  "(map_of p ''stock'' = None \<and> map_of p ''images'' = None
      \<and> map_of p ''title'' = Some (JStr t) \<and> map_of p ''slug'' = Some (JStr sl)
      \<and> map_of p ''vendor_slug'' = Some (JStr vs) \<and> map_of p ''saree_type'' = Some (JStr st)
      \<and> map_of p ''price_in_paise'' = Some (JInt n) \<and> 0 \<le> n
      \<and> optional_str (map_of p ''description'') \<and> optional_str (map_of p ''color'')
      \<and> optional_str (map_of p ''material'') \<and> optional_str (map_of p ''occasion'')
      \<and> optional_str (map_of p ''care'') \<longrightarrow>
      (\<exists>w. validate L Product p = Inr w
          \<and> map_of w ''stock'' = Some (JInt 10) \<and> map_of w ''images'' = Some (JList [])))
   \<and> (validate L Product p = Inr v \<longrightarrow>
      validate L Product (AList.delete ''stock'' p) = Inr (AList.update ''stock'' (JInt 10) v)
      \<and> validate L Product (AList.delete ''images'' p) = Inr (AList.update ''images'' (JList []) v)
      \<and> validate L Product (AList.delete ''stock'' (AList.delete ''images'' p))
          = Inr (AList.update ''stock'' (JInt 10) (AList.update ''images'' (JList []) v)))"
proof (rule conjI; rule impI)
  assume a: "map_of p ''stock'' = None \<and> map_of p ''images'' = None
      \<and> map_of p ''title'' = Some (JStr t) \<and> map_of p ''slug'' = Some (JStr sl)
      \<and> map_of p ''vendor_slug'' = Some (JStr vs) \<and> map_of p ''saree_type'' = Some (JStr st)
      \<and> map_of p ''price_in_paise'' = Some (JInt n) \<and> 0 \<le> n
      \<and> optional_str (map_of p ''description'') \<and> optional_str (map_of p ''color'')
      \<and> optional_str (map_of p ''material'') \<and> optional_str (map_of p ''occasion'')
      \<and> optional_str (map_of p ''care'')"
  from a validate_field_optional_str [of p _ L] obtain y3 y7 y8 y9 y10 where o:
    "validate_field L p (''description'', TOptional TStr, Default JNull) = Inr (''description'', y3)"
    "validate_field L p (''color'', TOptional TStr, Default JNull) = Inr (''color'', y7)"
    "validate_field L p (''material'', TOptional TStr, Default JNull) = Inr (''material'', y8)"
    "validate_field L p (''occasion'', TOptional TStr, Default JNull) = Inr (''occasion'', y9)"
    "validate_field L p (''care'', TOptional TStr, Default JNull) = Inr (''care'', y10)"
    by metis
  from a have "validate L Product p =
     Inr [(''title'', JStr t), (''slug'', JStr sl), (''description'', y3), (''vendor_slug'', JStr vs),
          (''price_in_paise'', JInt n), (''saree_type'', JStr st), (''color'', y7),
          (''material'', y8), (''occasion'', y9), (''care'', y10), (''images'', JList []),
          (''stock'', JInt 10)]"
    unfolding validate_def Product_def
    by (simp add: o validate_field_str validate_field_int validate_field_absent)
  then show "\<exists>w. validate L Product p = Inr w
          \<and> map_of w ''stock'' = Some (JInt 10) \<and> map_of w ''images'' = Some (JList [])"
    by simp
next
  assume assms: "validate L Product p = Inr v"
  from validate_Product_shape [OF assms] obtain y1 y2 y3 y4 y5 y6 y7 y8 y9 y10 y11 y12 where
    v: "v = [(''title'', y1), (''slug'', y2), (''description'', y3), (''vendor_slug'', y4),
           (''price_in_paise'', y5), (''saree_type'', y6), (''color'', y7), (''material'', y8),
           (''occasion'', y9), (''care'', y10), (''images'', y11), (''stock'', y12)]" by blast
  from assms have m: "map (validate_field L p) Product = map Inr v"
    by (simp add: validate_def collect_Inr_iff)
  have 1: "validate L Product (AList.delete ''stock'' p) = Inr (AList.update ''stock'' (JInt 10) v)"
    using m unfolding v validate_def collect_Inr_iff Product_def
    by (simp add: validate_field_delete validate_field_default)
  have 2: "validate L Product (AList.delete ''images'' p) = Inr (AList.update ''images'' (JList []) v)"
    using m unfolding v validate_def collect_Inr_iff Product_def
    by (simp add: validate_field_delete validate_field_default)
  have 3: "validate L Product (AList.delete ''stock'' (AList.delete ''images'' p))
        = Inr (AList.update ''stock'' (JInt 10) (AList.update ''images'' (JList []) v))"
    using m unfolding v validate_def collect_Inr_iff Product_def
    by (simp add: validate_field_delete validate_field_default)
  from 1 2 3 show "validate L Product (AList.delete ''stock'' p) = Inr (AList.update ''stock'' (JInt 10) v)
      \<and> validate L Product (AList.delete ''images'' p) = Inr (AList.update ''images'' (JList []) v)
      \<and> validate L Product (AList.delete ''stock'' (AList.delete ''images'' p))
          = Inr (AList.update ''stock'' (JInt 10) (AList.update ''images'' (JList []) v))"
    by blast
qed

theorem product_stock_images_default_witness:
  "validate no_coercion Product
      (breeze_payload @ [(''images'', JList [JStr ''https://example.com/a.jpg'']), (''stock'', JInt 3)])
     = Inr [(''title'', JStr ''Summer Breeze Cotton''),
            (''slug'', JStr ''summer-breeze-cotton''),
            (''description'', JNull),
            (''vendor_slug'', JStr ''cotton-looms''),
            (''price_in_paise'', JInt 299900),
            (''saree_type'', JStr ''Cotton''),
            (''color'', JNull),
            (''material'', JNull),
            (''occasion'', JNull),
            (''care'', JNull),
            (''images'', JList [JStr ''https://example.com/a.jpg'']),
            (''stock'', JInt 3)]
   \<and> validate no_coercion Product breeze_payload
     = Inr [(''title'', JStr ''Summer Breeze Cotton''),
            (''slug'', JStr ''summer-breeze-cotton''),
            (''description'', JNull),
            (''vendor_slug'', JStr ''cotton-looms''),
            (''price_in_paise'', JInt 299900),
            (''saree_type'', JStr ''Cotton''),
            (''color'', JNull),
            (''material'', JNull),
            (''occasion'', JNull),
            (''care'', JNull),
            (''images'', JList []),
            (''stock'', JInt 10)]"
proof -
  have a: "validate no_coercion Product
      (breeze_payload @ [(''images'', JList [JStr ''https://example.com/a.jpg'']), (''stock'', JInt 3)])
     = Inr [(''title'', JStr ''Summer Breeze Cotton''),
            (''slug'', JStr ''summer-breeze-cotton''),
            (''description'', JNull),
            (''vendor_slug'', JStr ''cotton-looms''),
            (''price_in_paise'', JInt 299900),
            (''saree_type'', JStr ''Cotton''),
            (''color'', JNull),
            (''material'', JNull),
            (''occasion'', JNull),
            (''care'', JNull),
            (''images'', JList [JStr ''https://example.com/a.jpg'']),
            (''stock'', JInt 3)]"
    by (simp add: breeze_payload_def validate_def Product_def validate_field_def to_int_def
        check_bounds_def at_loc_def to_url_def no_coercion_def)
  have d: "AList.delete ''stock'' (AList.delete ''images''
      (breeze_payload @ [(''images'', JList [JStr ''https://example.com/a.jpg'']), (''stock'', JInt 3)]))
     = breeze_payload"
    by (simp add: breeze_payload_def AList.delete_eq)
  show ?thesis
    using a product_stock_images_default
      [of "breeze_payload @ [(''images'', JList [JStr ''https://example.com/a.jpg'']), (''stock'', JInt 3)]"
          "''Summer Breeze Cotton''" "''summer-breeze-cotton''" "''cotton-looms''" "''Cotton''" 299900
          no_coercion]
      product_stock_images_default
      [of breeze_payload "''Summer Breeze Cotton''" "''summer-breeze-cotton''" "''cotton-looms''"
          "''Cotton''" 299900 no_coercion]
    unfolding d
    by (simp add: breeze_payload_def optional_str_def)
qed

section \<open>Reading and writing\<close>

lemma get_documents_eq:
  assumes "k \<noteq> ''$or''" and "hd k \<noteq> CHR ''$''"
  shows "get_documents (Some st) coll (Some [(k, JStr v)]) n =
     Inr (take n (filter (\<lambda>d. map_of d k = Some (JStr v)) (colls st coll)))"
proof -
  have "eval_query [Cond (Eq k (JStr v))] = (\<lambda>d. map_of d k = Some (JStr v))"
    by (rule ext) (simp add: eval_query_def eval_clause_def eval_cond_def)
  with assms show ?thesis
    by (simp add: get_documents_def compile_filter_def compile_clause_def compile_cond_def)
qed

lemma filter_head_sat: "filter P xs = y # ys \<Longrightarrow> P y"
  by (metis Cons_eq_filterD)

text \<open>
  Claim C1, as the code has it. On an uninitialized store (\<open>db\<close> is \<open>None\<close>) the listings
  of products, vendors and reviews return the empty sequence; the listing of categories
  returns the five built-in categories; fetching a product or a vendor by slug fails
  with the exception of status 503; and every create operation fails with that
  exception and leaves the store as it is.
\<close>

theorem uninitialized_store:
  "list_products str_of None q saree_type color material occasion limit = Inr []
   \<and> list_vendors str_of None limit = Inr []
   \<and> list_reviews str_of None product_slug limit = Inr []
   \<and> list_categories str_of None limit = Inr default_categories
   \<and> get_product str_of None slug = Inl (HTTPException 503 ''Database not available'')
   \<and> get_vendor str_of None slug = Inl (HTTPException 503 ''Database not available'')
   \<and> create_product str_of None body = (Inl (HTTPException 503 ''Database not available''), None)
   \<and> create_vendor str_of None body = (Inl (HTTPException 503 ''Database not available''), None)
   \<and> create_review str_of None body = (Inl (HTTPException 503 ''Database not available''), None)
   \<and> create_order str_of None body = (Inl (HTTPException 503 ''Database not available''), None)"
  by (simp add: list_products_def list_vendors_def list_reviews_def list_categories_def
      get_product_def get_vendor_def create_product_def create_vendor_def create_review_def
      create_order_def unavailable_def)

text \<open>
  Claim C1 as stated fails for the categories: on an uninitialized store their listing
  is not empty.
\<close>

theorem list_categories_counterexample:
  "list_categories oid_str None 20 \<noteq> Inr []"
  by (simp add: list_categories_def default_categories_def)

text \<open>
  Claim C4. When the store has a product with the slug asked for, fetching it returns
  the first such product, normalized, with the field \<open>reviews\<close> set to the reviews whose
  \<open>product_slug\<close> is that slug, in insertion order, at most 50 of them, each normalized;
  the product's own slug is the slug asked for. With no such review the field is the
  empty list. Fetching a vendor does the same with the field \<open>products\<close> and the products
  whose \<open>vendor_slug\<close> is the slug.
\<close>

theorem stitch_related:
  "(filter (\<lambda>d. map_of d ''slug'' = Some (JStr slug)) (colls st ''product'') = p # ps \<longrightarrow>
      get_product str_of (Some st) slug =
        Inr (AList.update ''reviews''
               (JList (map JDict (map (normalize_id str_of)
                  (take 50 (filter (\<lambda>r. map_of r ''product_slug'' = Some (JStr slug))
                     (colls st ''review''))))))
               (normalize_id str_of p))
      \<and> map_of p ''slug'' = Some (JStr slug)
      \<and> (filter (\<lambda>r. map_of r ''product_slug'' = Some (JStr slug)) (colls st ''review'') = [] \<longrightarrow>
           get_product str_of (Some st) slug =
             Inr (AList.update ''reviews'' (JList []) (normalize_id str_of p))))
   \<and> (filter (\<lambda>d. map_of d ''slug'' = Some (JStr slug)) (colls st ''vendor'') = v # vs \<longrightarrow>
      get_vendor str_of (Some st) slug =
        Inr (AList.update ''products''
               (JList (map JDict (map (normalize_id str_of)
                  (take 50 (filter (\<lambda>r. map_of r ''vendor_slug'' = Some (JStr slug))
                     (colls st ''product''))))))
               (normalize_id str_of v))
      \<and> map_of v ''slug'' = Some (JStr slug)
      \<and> (filter (\<lambda>r. map_of r ''vendor_slug'' = Some (JStr slug)) (colls st ''product'') = [] \<longrightarrow>
           get_vendor str_of (Some st) slug =
             Inr (AList.update ''products'' (JList []) (normalize_id str_of v))))"
  by (auto simp: get_product_def get_vendor_def get_documents_eq normalize_all_def
      dest: filter_head_sat)

theorem stitch_related_witness:
  "get_product oid_str (Some sample_store) ''royal-banarasi-brocade'' =
     Inr [(''title'', JStr ''Royal Banarasi Brocade''),
          (''slug'', JStr ''royal-banarasi-brocade''),
          (''description'', JStr ''Rich zari work with traditional motifs.''),
          (''vendor_slug'', JStr ''varanasi-weaves''),
          (''price_in_paise'', JInt 899900),
          (''saree_type'', JStr ''Banarasi''),
          (''color'', JStr ''Maroon''),
          (''id'', JStr ''65f0a''),
          (''reviews'',
             JList [JDict [(''product_slug'', JStr ''royal-banarasi-brocade''),
                           (''rating'', JInt 5),
                           (''author_name'', JStr ''Asha''),
                           (''id'', JStr ''65f0b'')]])]
   \<and> map_of (case get_vendor oid_str (Some sample_store) ''varanasi-weaves'' of
               Inl e \<Rightarrow> [] | Inr d \<Rightarrow> d) ''products''
       = Some (JList [JDict (normalize_id oid_str brocade)])
   \<and> get_vendor oid_str (Some (sample_store\<lparr>colls := (sample_colls)(''product'' := [])\<rparr>))
        ''varanasi-weaves''
       = Inr [(''store_name'', JStr ''Varanasi Weaves''),
              (''slug'', JStr ''varanasi-weaves''),
              (''verified'', JBool True),
              (''id'', JStr ''65f0d''),
              (''products'', JList [])]"
  using stitch_related [of "''royal-banarasi-brocade''" sample_store brocade "[]" oid_str weaves "[]"]
    stitch_related [of "''varanasi-weaves''" sample_store weaves "[]" oid_str weaves "[]"]
    stitch_related [of "''varanasi-weaves''" "sample_store\<lparr>colls := (sample_colls)(''product'' := [])\<rparr>"
      weaves "[]" oid_str weaves "[]"]
  by (simp add: sample_store_def sample_colls_def brocade_def review_a_def review_b_def weaves_def
      normalize_id_def oid_str_def AList.delete_eq)

lemma get_by_slug_empty:
  "take (Suc 0) (filter P xs) = [] \<longleftrightarrow> filter P xs = []"
  by (cases "filter P xs") simp_all

lemma get_product_fails:
  "get_product str_of db slug = Inl e \<longleftrightarrow>
     (db = None \<and> e = HTTPException 503 ''Database not available'')
     \<or> (\<exists>st. db = Some st
           \<and> filter (\<lambda>d. map_of d ''slug'' = Some (JStr slug)) (colls st ''product'') = []
           \<and> e = HTTPException 404 ''Product not found'')"
proof (cases db)
  case None
  then show ?thesis by (auto simp: get_product_def unavailable_def)
next
  case (Some st)
  show ?thesis
  proof (cases "filter (\<lambda>d. map_of d ''slug'' = Some (JStr slug)) (colls st ''product'')")
    case Nil
    with Some show ?thesis by (auto simp: get_product_def get_documents_eq)
  next
    case (Cons d ds)
    with Some show ?thesis by (simp add: get_product_def get_documents_eq Let_def)
  qed
qed

lemma get_vendor_fails:
  "get_vendor str_of db slug = Inl e \<longleftrightarrow>
     (db = None \<and> e = HTTPException 503 ''Database not available'')
     \<or> (\<exists>st. db = Some st
           \<and> filter (\<lambda>d. map_of d ''slug'' = Some (JStr slug)) (colls st ''vendor'') = []
           \<and> e = HTTPException 404 ''Vendor not found'')"
proof (cases db)
  case None
  then show ?thesis by (auto simp: get_vendor_def unavailable_def)
next
  case (Some st)
  show ?thesis
  proof (cases "filter (\<lambda>d. map_of d ''slug'' = Some (JStr slug)) (colls st ''vendor'')")
    case Nil
    with Some show ?thesis by (auto simp: get_vendor_def get_documents_eq)
  next
    case (Cons d ds)
    with Some show ?thesis by (simp add: get_vendor_def get_documents_eq Let_def)
  qed
qed

lemma create_document_Inr:
  "\<exists>i db'. create_document str_of (Some st) coll d = (Inr i, db')"
  by (simp add: create_document_def Let_def)

lemma post_products_fails:
  "post_products L str_of db payload = (Inl e, db') \<longleftrightarrow>
     (\<exists>es. validate L Product payload = Inl es \<and> e = RequestValidationError (in_body es) \<and> db' = db)
     \<or> (\<exists>body. validate L Product payload = Inr body \<and> db = None \<and> db' = None
           \<and> e = HTTPException 503 ''Database not available'')"
proof (cases "validate L Product payload")
  case (Inl es)
  then show ?thesis by (auto simp: post_products_def with_body_def)
next
  case (Inr body)
  show ?thesis
  proof (cases db)
    case None
    with Inr show ?thesis
      by (auto simp: post_products_def with_body_def create_product_def unavailable_def)
  next
    case (Some st)
    from create_document_Inr [of str_of st "''product''" body] Some Inr show ?thesis
      by (auto simp: post_products_def with_body_def create_product_def)
  qed
qed

lemma post_vendors_fails:
  "post_vendors L str_of db payload = (Inl e, db') \<longleftrightarrow>
     (\<exists>es. validate L Vendor payload = Inl es \<and> e = RequestValidationError (in_body es) \<and> db' = db)
     \<or> (\<exists>body. validate L Vendor payload = Inr body \<and> db = None \<and> db' = None
           \<and> e = HTTPException 503 ''Database not available'')"
proof (cases "validate L Vendor payload")
  case (Inl es)
  then show ?thesis by (auto simp: post_vendors_def with_body_def)
next
  case (Inr body)
  show ?thesis
  proof (cases db)
    case None
    with Inr show ?thesis
      by (auto simp: post_vendors_def with_body_def create_vendor_def unavailable_def)
  next
    case (Some st)
    from create_document_Inr [of str_of st "''vendor''" body] Some Inr show ?thesis
      by (auto simp: post_vendors_def with_body_def create_vendor_def)
  qed
qed

lemma post_reviews_fails:
  "post_reviews L str_of db payload = (Inl e, db') \<longleftrightarrow>
     (\<exists>es. validate L Review payload = Inl es \<and> e = RequestValidationError (in_body es) \<and> db' = db)
     \<or> (\<exists>body. validate L Review payload = Inr body \<and> db = None \<and> db' = None
           \<and> e = HTTPException 503 ''Database not available'')"
proof (cases "validate L Review payload")
  case (Inl es)
  then show ?thesis by (auto simp: post_reviews_def with_body_def)
next
  case (Inr body)
  show ?thesis
  proof (cases db)
    case None
    with Inr show ?thesis
      by (auto simp: post_reviews_def with_body_def create_review_def unavailable_def)
  next
    case (Some st)
    from create_document_Inr [of str_of st "''review''" body] Some Inr show ?thesis
      by (auto simp: post_reviews_def with_body_def create_review_def)
  qed
qed

lemma post_orders_fails:
  "post_orders L str_of db payload = (Inl e, db') \<longleftrightarrow>
     (\<exists>es. validate L Order payload = Inl es \<and> e = RequestValidationError (in_body es) \<and> db' = db)
     \<or> (\<exists>body. validate L Order payload = Inr body \<and> db = None \<and> db' = None
           \<and> e = HTTPException 503 ''Database not available'')"
proof (cases "validate L Order payload")
  case (Inl es)
  then show ?thesis by (auto simp: post_orders_def with_body_def)
next
  case (Inr body)
  show ?thesis
  proof (cases db)
    case None
    with Inr show ?thesis
      by (auto simp: post_orders_def with_body_def create_order_def unavailable_def)
  next
    case (Some st)
    from create_document_Inr [of str_of st "''order''" body] validate_Order_status [OF Inr]
      Some Inr show ?thesis
      by (auto simp: post_orders_def with_body_def create_order_def)
  qed
qed

text \<open>
  Claim C8, as the code has it. The handlers produce the transport status themselves.
  Fetching a product or a vendor by slug fails exactly in two cases: on an uninitialized
  store, with the exception of status 503, and on a store that has no document with the
  slug, with the exception of status 404. A create request fails exactly in two cases:
  when the payload does not validate, with the validation error, which carries the field
  errors and no status, and when the payload validates and the store is uninitialized,
  with the exception of status 503; in both the store is left as it is. The create
  handlers themselves fail on an uninitialized store with the exception of status 503.
\<close>

theorem handler_failures:
  "(get_product str_of db slug = Inl e \<longleftrightarrow>
      (db = None \<and> e = HTTPException 503 ''Database not available'')
      \<or> (\<exists>st. db = Some st
            \<and> filter (\<lambda>d. map_of d ''slug'' = Some (JStr slug)) (colls st ''product'') = []
            \<and> e = HTTPException 404 ''Product not found''))
   \<and> (get_vendor str_of db slug = Inl e \<longleftrightarrow>
      (db = None \<and> e = HTTPException 503 ''Database not available'')
      \<or> (\<exists>st. db = Some st
            \<and> filter (\<lambda>d. map_of d ''slug'' = Some (JStr slug)) (colls st ''vendor'') = []
            \<and> e = HTTPException 404 ''Vendor not found''))
   \<and> (post_products L str_of db payload = (Inl e, db') \<longleftrightarrow>
      (\<exists>es. validate L Product payload = Inl es \<and> e = RequestValidationError (in_body es)
            \<and> db' = db)
      \<or> (\<exists>body. validate L Product payload = Inr body \<and> db = None \<and> db' = None
            \<and> e = HTTPException 503 ''Database not available''))
   \<and> (post_vendors L str_of db payload = (Inl e, db') \<longleftrightarrow>
      (\<exists>es. validate L Vendor payload = Inl es \<and> e = RequestValidationError (in_body es)
            \<and> db' = db)
      \<or> (\<exists>body. validate L Vendor payload = Inr body \<and> db = None \<and> db' = None
            \<and> e = HTTPException 503 ''Database not available''))
   \<and> (post_reviews L str_of db payload = (Inl e, db') \<longleftrightarrow>
      (\<exists>es. validate L Review payload = Inl es \<and> e = RequestValidationError (in_body es)
            \<and> db' = db)
      \<or> (\<exists>body. validate L Review payload = Inr body \<and> db = None \<and> db' = None
            \<and> e = HTTPException 503 ''Database not available''))
   \<and> (post_orders L str_of db payload = (Inl e, db') \<longleftrightarrow>
      (\<exists>es. validate L Order payload = Inl es \<and> e = RequestValidationError (in_body es)
            \<and> db' = db)
      \<or> (\<exists>body. validate L Order payload = Inr body \<and> db = None \<and> db' = None
            \<and> e = HTTPException 503 ''Database not available''))
   \<and> get_product str_of None slug = Inl (HTTPException 503 ''Database not available'')
   \<and> get_vendor str_of None slug = Inl (HTTPException 503 ''Database not available'')
   \<and> (filter (\<lambda>d. map_of d ''slug'' = Some (JStr slug)) (colls st ''product'') = [] \<longrightarrow>
        get_product str_of (Some st) slug = Inl (HTTPException 404 ''Product not found''))
   \<and> (filter (\<lambda>d. map_of d ''slug'' = Some (JStr slug)) (colls st ''vendor'') = [] \<longrightarrow>
        get_vendor str_of (Some st) slug = Inl (HTTPException 404 ''Vendor not found''))
   \<and> create_product str_of None body = (Inl (HTTPException 503 ''Database not available''), None)
   \<and> create_vendor str_of None body = (Inl (HTTPException 503 ''Database not available''), None)
   \<and> create_review str_of None body = (Inl (HTTPException 503 ''Database not available''), None)
   \<and> create_order str_of None body = (Inl (HTTPException 503 ''Database not available''), None)"
proof -
  have n1: "get_product str_of None slug = Inl (HTTPException 503 ''Database not available'')"
    by (simp add: get_product_fails)
  have n2: "get_vendor str_of None slug = Inl (HTTPException 503 ''Database not available'')"
    by (simp add: get_vendor_fails)
  have m1: "filter (\<lambda>d. map_of d ''slug'' = Some (JStr slug)) (colls st ''product'') = [] \<longrightarrow>
        get_product str_of (Some st) slug = Inl (HTTPException 404 ''Product not found'')"
    by (simp add: get_product_fails)
  have m2: "filter (\<lambda>d. map_of d ''slug'' = Some (JStr slug)) (colls st ''vendor'') = [] \<longrightarrow>
        get_vendor str_of (Some st) slug = Inl (HTTPException 404 ''Vendor not found'')"
    by (simp add: get_vendor_fails)
  have c: "create_product str_of None body = (Inl (HTTPException 503 ''Database not available''), None)"
    "create_vendor str_of None body = (Inl (HTTPException 503 ''Database not available''), None)"
    "create_review str_of None body = (Inl (HTTPException 503 ''Database not available''), None)"
    "create_order str_of None body = (Inl (HTTPException 503 ''Database not available''), None)"
    by (simp_all add: create_product_def create_vendor_def create_review_def create_order_def
        unavailable_def)
  show ?thesis
    using get_product_fails [of str_of db slug e] get_vendor_fails [of str_of db slug e]
      post_products_fails [of L str_of db payload e db']
      post_vendors_fails [of L str_of db payload e db']
      post_reviews_fails [of L str_of db payload e db']
      post_orders_fails [of L str_of db payload e db']
      n1 n2 m1 m2 c
    by blast
qed

theorem handler_failures_witness:
  "get_product oid_str None ''royal-banarasi-brocade''
     = Inl (HTTPException 503 ''Database not available'')
   \<and> get_product oid_str (Some sample_store) ''summer-breeze-cotton''
     = Inl (HTTPException 404 ''Product not found'')
   \<and> get_vendor oid_str (Some sample_store) ''cotton-looms''
     = Inl (HTTPException 404 ''Vendor not found'')
   \<and> post_products no_coercion oid_str None breeze_payload
     = (Inl (HTTPException 503 ''Database not available''), None)
   \<and> post_reviews no_coercion oid_str (Some sample_store) [(''rating'', JInt 9)]
     = (Inl (RequestValidationError
               [([Key ''body'', Key ''product_slug''], Missing),
                ([Key ''body'', Key ''rating''], LessThanEqual 5)]),
        Some sample_store)"
proof -
  have p: "filter (\<lambda>d. map_of d ''slug'' = Some (JStr ''summer-breeze-cotton''))
             (colls sample_store ''product'') = []"
    by (simp add: sample_store_def sample_colls_def brocade_def)
  have v: "filter (\<lambda>d. map_of d ''slug'' = Some (JStr ''cotton-looms''))
             (colls sample_store ''vendor'') = []"
    by (simp add: sample_store_def sample_colls_def weaves_def)
  have b: "validate no_coercion Product breeze_payload =
       Inr [(''title'', JStr ''Summer Breeze Cotton''),
            (''slug'', JStr ''summer-breeze-cotton''),
            (''description'', JNull),
            (''vendor_slug'', JStr ''cotton-looms''),
            (''price_in_paise'', JInt 299900),
            (''saree_type'', JStr ''Cotton''),
            (''color'', JNull),
            (''material'', JNull),
            (''occasion'', JNull),
            (''care'', JNull),
            (''images'', JList []),
            (''stock'', JInt 10)]"
    by (simp add: breeze_payload_def validate_def Product_def validate_field_def to_int_def
        check_bounds_def at_loc_def)
  have r: "validate no_coercion Review [(''rating'', JInt 9)] =
       Inl [([Key ''product_slug''], Missing), ([Key ''rating''], LessThanEqual 5)]"
    by (simp add: validate_def Review_def validate_field_def to_int_def check_bounds_def at_loc_def)
  show ?thesis
    using
      handler_failures [of oid_str None "''royal-banarasi-brocade''"
        "HTTPException 503 ''Database not available''" no_coercion breeze_payload None sample_store]
      handler_failures [of oid_str "Some sample_store" "''summer-breeze-cotton''"
        "HTTPException 404 ''Product not found''" no_coercion breeze_payload None sample_store]
      handler_failures [of oid_str "Some sample_store" "''cotton-looms''"
        "HTTPException 404 ''Vendor not found''" no_coercion breeze_payload None sample_store]
      handler_failures [of oid_str "Some sample_store" "''cotton-looms''"
        "RequestValidationError
           [([Key ''body'', Key ''product_slug''], Missing),
            ([Key ''body'', Key ''rating''], LessThanEqual 5)]"
        no_coercion "[(''rating'', JInt 9)]" "Some sample_store" sample_store]
      p v b r
    by (simp add: in_body_def)
qed

text \<open>
  Claim C8 as stated fails: the failure of a slug lookup without a match is the
  exception \<^verbatim>\<open>HTTPException(404, "Product not found")\<close>, with its status, raised by the
  handler itself.
\<close>

theorem not_found_status_counterexample:
  "get_product oid_str (Some sample_store) ''summer-breeze-cotton''
     = Inl (HTTPException 404 ''Product not found'')"
  by (simp add: get_product_def get_documents_eq sample_store_def sample_colls_def brocade_def)

end
